theory Spec2Isabelle
  imports Complex_Main "HOL-Library.Multiset"
begin

section \<open>Strings and characters\<close>

text \<open>
  A JavaScript string is a sequence of UTF-16 code units. The model uses \<^typ>\<open>string\<close>,
  whose characters are the code units U+0000 to U+00FF; on this range the character
  classes of the source's regular expressions are the finite sets below.
  A number is modelled by the \<^typ>\<open>real\<close> it denotes. The source computes in IEEE doubles,
  where an operation whose exact result is a double returns this result. The model
  follows the arithmetic of the grading through the results that are whole numbers of
  magnitude up to \<open>2^53\<close>, which are doubles, and gives no result where the arithmetic
  leaves them. A question number of the parser is read as the exact natural number; the
  source's \<open>parseInt\<close> gives the double next to it, which is the number itself up to \<open>2^53\<close>.
\<close>

definition is_space :: "char \<Rightarrow> bool" where
  \<comment> \<open>the class \<open>\s\<close>, also what \<open>trim\<close> strips: TAB, LF, VT, FF, CR, SPACE, NBSP\<close>
  "is_space c = (c \<in> set [CHR 0x09, CHR 0x0A, CHR 0x0B, CHR 0x0C, CHR 0x0D, CHR 0x20, CHR 0xA0])"

definition is_digit :: "char \<Rightarrow> bool" where
  \<comment> \<open>the class \<open>\d\<close>\<close>
  "is_digit c = (c \<in> set ''0123456789'')"

definition is_word :: "char \<Rightarrow> bool" where
  \<comment> \<open>the class \<open>\w\<close>\<close>
  "is_word c = (c \<in> set ''abcdefghijklmnopqrstuvwxyzABCDEFGHIJKLMNOPQRSTUVWXYZ0123456789_'')"

definition lower_char :: "char \<Rightarrow> char" where
  \<comment> \<open>\<open>toLowerCase\<close> on one code unit below U+0100: A-Z and the Latin-1 capitals\<close>
  "lower_char c =
     (let n = (of_char c :: nat)
      in if (65 \<le> n \<and> n \<le> 90) \<or> (192 \<le> n \<and> n \<le> 222 \<and> n \<noteq> 215)
         then char_of (n + 32) else c)"

definition toLowerCase :: "string \<Rightarrow> string" where
  "toLowerCase s = map lower_char s"

definition trim :: "string \<Rightarrow> string" where
  "trim s = rev (dropWhile is_space (rev (dropWhile is_space s)))"

fun collapse_from :: "bool \<Rightarrow> string \<Rightarrow> string" where
  \<comment> \<open>\<open>replace(/\s+/g, ' ')\<close>; the flag says that the run of white space has begun\<close>
  "collapse_from inrun [] = []"
| "collapse_from inrun (c # cs) =
     (if is_space c
      then (if inrun then collapse_from True cs else CHR '' '' # collapse_from True cs)
      else c # collapse_from False cs)"

definition collapse_spaces :: "string \<Rightarrow> string" where
  "collapse_spaces s = collapse_from False s"

fun starts_with :: "string \<Rightarrow> string \<Rightarrow> bool" where
  "starts_with s [] = True"
| "starts_with [] (y # ys) = False"
| "starts_with (x # xs) (y # ys) = (x = y \<and> starts_with xs ys)"

fun str_includes :: "string \<Rightarrow> string \<Rightarrow> bool" where
  \<comment> \<open>\<open>s.includes(t)\<close> (\<open>includes\<close> is a reserved word here)\<close>
  "str_includes [] t = starts_with [] t"
| "str_includes (x # xs) t = (starts_with (x # xs) t \<or> str_includes xs t)"

fun split_on :: "char \<Rightarrow> string \<Rightarrow> string list" where
  \<comment> \<open>\<open>s.split(c)\<close> for a one-character separator: the empty string gives one empty piece\<close>
  "split_on d [] = [[]]"
| "split_on d (c # cs) =
     (if c = d then [] # split_on d cs
      else (case split_on d cs of [] \<Rightarrow> [[c]] | w # ws \<Rightarrow> (c # w) # ws))"

section \<open>Auto-grading of short answers (services/autoGrading.ts)\<close>

datatype weight_val = Num real | Inherited

record KeywordMatch =
  keyword :: string
  found :: bool
  weight :: weight_val

record GradingResult =
  score :: real
  maxScore :: real
  percentage :: real
  matchedKeywords :: "KeywordMatch list"

definition normalizeText :: "string \<Rightarrow> string" where
  "normalizeText text =
     trim (collapse_spaces
       (map (\<lambda>c. if is_word c \<or> is_space c then c else CHR '' '') (toLowerCase text)))"

definition containsKeyword :: "string \<Rightarrow> string \<Rightarrow> bool" where
  "containsKeyword answer kw =
     (let normalizedAnswer = normalizeText answer;
          normalizedKeyword = normalizeText kw
      in if str_includes normalizedAnswer normalizedKeyword then True
         else (let keywordWords = split_on CHR '' '' normalizedKeyword;
                   answerWords = split_on CHR '' '' normalizedAnswer
               in list_all (\<lambda>keywordWord.
                    list_ex (\<lambda>answerWord.
                      str_includes answerWord keywordWord \<or> str_includes keywordWord answerWord)
                      answerWords) keywordWords))"

definition object_prototype_keys :: "string list" where
  \<comment> \<open>the names that every plain object inherits from \<open>Object.prototype\<close>; each of them
      yields a function or an object\<close>
  "object_prototype_keys =
     [''constructor'', ''hasOwnProperty'', ''isPrototypeOf'', ''propertyIsEnumerable'',
      ''toLocaleString'', ''toString'', ''valueOf'', ''__proto__'',
      ''__defineGetter__'', ''__defineSetter__'', ''__lookupGetter__'', ''__lookupSetter__'']"

definition weight_of :: "(string \<rightharpoonup> real) \<Rightarrow> string \<Rightarrow> weight_val" where
  \<comment> \<open>\<open>keywordWeightage[keyword] || 1\<close>, the map holding the object's own numbers: a zero
      weight counts 1; a keyword without a weight of its own gets the inherited member
      when it names one, and 1 otherwise\<close>
  "weight_of keywordWeightage k =
     (case keywordWeightage k of
        Some w \<Rightarrow> if w = 0 then Num 1 else Num w
      | None \<Rightarrow> if k \<in> set object_prototype_keys then Inherited else Num 1)"

datatype total = Number real | Text

definition safe :: "real \<Rightarrow> bool" where
  \<comment> \<open>a whole number of magnitude up to \<open>2^53\<close>\<close>
  "safe x = (of_int \<lfloor>x\<rfloor> = x \<and> \<bar>x\<bar> \<le> 2 ^ 53)"

definition exact :: "real \<Rightarrow> real option" where
  \<comment> \<open>the result of an operation on doubles whose exact result is the given real\<close>
  "exact x = (if safe x then Some x else None)"

fun add_weight :: "total \<Rightarrow> weight_val \<Rightarrow> total option" where
  \<comment> \<open>\<open>sum += weight\<close>: a number and a function or object give a string, and so does a
      string and anything\<close>
  "add_weight (Number a) (Num w) = map_option Number (exact (a + w))"
| "add_weight (Number a) Inherited = Some Text"
| "add_weight Text w = Some Text"

fun positive :: "total \<Rightarrow> bool" where
  \<comment> \<open>\<open>sum > 0\<close>: the string of a sum is not the text of a number, and compares false\<close>
  "positive (Number a) = (a > 0)"
| "positive Text = False"

fun quotient :: "total \<Rightarrow> total \<Rightarrow> real option" where
  \<comment> \<open>\<open>earnedPoints / maxPossiblePoints\<close>; with a string it is not a number\<close>
  "quotient (Number a) (Number b) = exact (a / b)"
| "quotient (Number a) Text = None"
| "quotient Text b = None"

fun eval_keywords ::
  "string \<Rightarrow> (string \<rightharpoonup> real) \<Rightarrow> string list \<Rightarrow>
   KeywordMatch list \<times> total \<times> total \<Rightarrow> (KeywordMatch list \<times> total \<times> total) option" where
  \<comment> \<open>the loop over the keywords; the state is (matches, earnedPoints, maxPossiblePoints)\<close>
  "eval_keywords a kwt [] st = Some st"
| "eval_keywords a kwt (k # ks) (matches, earnedPoints, maxPossiblePoints) =
     (let w = weight_of kwt k;
          f = containsKeyword a k
      in case add_weight maxPossiblePoints w of
           None \<Rightarrow> None
         | Some maxPossiblePoints' \<Rightarrow>
            (case (if f then add_weight earnedPoints w else Some earnedPoints) of
               None \<Rightarrow> None
             | Some earnedPoints' \<Rightarrow>
                 eval_keywords a kwt ks
                   (matches @ [\<lparr>keyword = k, found = f, weight = w\<rparr>],
                    earnedPoints', maxPossiblePoints')))"

definition js_round :: "real \<Rightarrow> real" where
  \<comment> \<open>\<open>Math.round\<close>: the nearest integer, a tie going up\<close>
  "js_round x = of_int \<lfloor>x + 1 / 2\<rfloor>"

definition scaled :: "total \<Rightarrow> total \<Rightarrow> real \<Rightarrow> real option" where
  \<comment> \<open>\<open>maxPossiblePoints > 0 ? (earnedPoints / maxPossiblePoints) * factor : 0\<close>\<close>
  "scaled earnedPoints maxPossiblePoints factor =
     (if positive maxPossiblePoints
      then (case quotient earnedPoints maxPossiblePoints of
              None \<Rightarrow> None
            | Some q \<Rightarrow> exact (q * factor))
      else Some 0)"

definition round2 :: "real \<Rightarrow> real option" where
  \<comment> \<open>\<open>Math.round(x * 100) / 100\<close>\<close>
  "round2 x =
     (case exact (x * 100) of
        None \<Rightarrow> None
      | Some y \<Rightarrow> exact (js_round y / 100))"

definition gradeShortAnswer ::
  "string \<Rightarrow> string list \<Rightarrow> (string \<rightharpoonup> real) \<Rightarrow> real \<Rightarrow> GradingResult option" where
  \<comment> \<open>\<open>None\<close>: a result of the arithmetic is not a whole number up to \<open>2^53\<close>, and the
      model does not follow the source's doubles\<close>
  "gradeShortAnswer studentAnswer expectedKeywords keywordWeightage totalPoints =
     (if studentAnswer = [] \<or> expectedKeywords = []
      then Some \<lparr>score = 0, maxScore = totalPoints, percentage = 0, matchedKeywords = []\<rparr>
      else (case eval_keywords studentAnswer keywordWeightage expectedKeywords
                   ([], Number 0, Number 0) of
              None \<Rightarrow> None
            | Some (matches, earnedPoints, maxPossiblePoints) \<Rightarrow>
               (case scaled earnedPoints maxPossiblePoints totalPoints of
                  None \<Rightarrow> None
                | Some normalizedScore \<Rightarrow>
                   (case round2 normalizedScore of
                      None \<Rightarrow> None
                    | Some sc \<Rightarrow>
                       (case scaled earnedPoints maxPossiblePoints 100 of
                          None \<Rightarrow> None
                        | Some pc \<Rightarrow>
                            Some \<lparr>score = sc, maxScore = totalPoints, percentage = pc,
                                  matchedKeywords = matches\<rparr>)))))"

definition requiresManualReview :: "GradingResult \<Rightarrow> real \<Rightarrow> bool" where
  \<comment> \<open>the second parameter, \<open>reviewThreshold\<close>, is not read by the source\<close>
  "requiresManualReview gradingResult reviewThreshold =
     (if percentage gradingResult \<ge> 40 \<and> percentage gradingResult \<le> 60 then True else False)"

section \<open>Regular expressions\<close>

text \<open>
  The parser works with JavaScript regular expressions. They are modelled by a small
  backtracking matcher in continuation style, which tries the alternatives in the order
  of the ECMAScript matcher: the left branch of an alternative first, a greedy loop
  longest first, a lazy loop shortest first; an iteration of a loop that consumes
  nothing is rejected, a lookahead does not consume.
\<close>

datatype regex =
    Chr "char \<Rightarrow> bool"
  | Eps
  | Seq regex regex
  | Alt regex regex
  | Star regex
  | LazyStar regex
  | Group nat regex
  | Look regex
  | Bol
  | BolM
  | Eol

record mstate =
  prev :: "char option"
  rest :: string
  caps :: "nat \<rightharpoonup> string"

type_synonym cont = "mstate \<Rightarrow> mstate option"

definition is_line_terminator :: "char \<Rightarrow> bool" where
  "is_line_terminator c = (c \<in> set [CHR 0x0A, CHR 0x0D])"

primrec repeat_greedy :: "nat \<Rightarrow> (cont \<Rightarrow> cont) \<Rightarrow> cont \<Rightarrow> cont" where
  "repeat_greedy 0 f k = k"
| "repeat_greedy (Suc n) f k =
     (\<lambda>st. case f (\<lambda>st'. if length (rest st') < length (rest st)
                          then repeat_greedy n f k st' else None) st of
             Some r \<Rightarrow> Some r
           | None \<Rightarrow> k st)"

primrec repeat_lazy :: "nat \<Rightarrow> (cont \<Rightarrow> cont) \<Rightarrow> cont \<Rightarrow> cont" where
  "repeat_lazy 0 f k = k"
| "repeat_lazy (Suc n) f k =
     (\<lambda>st. case k st of
             Some r \<Rightarrow> Some r
           | None \<Rightarrow> f (\<lambda>st'. if length (rest st') < length (rest st)
                               then repeat_lazy n f k st' else None) st)"

primrec rmatch :: "regex \<Rightarrow> cont \<Rightarrow> cont" where
  "rmatch (Chr p) = (\<lambda>k st. case rest st of
                       [] \<Rightarrow> None
                     | c # cs \<Rightarrow> if p c then k (st\<lparr>prev := Some c, rest := cs\<rparr>) else None)"
| "rmatch Eps = (\<lambda>k. k)"
| "rmatch (Seq a b) = (\<lambda>k. rmatch a (rmatch b k))"
| "rmatch (Alt a b) = (\<lambda>k st. case rmatch a k st of Some r \<Rightarrow> Some r | None \<Rightarrow> rmatch b k st)"
| "rmatch (Star r) = (\<lambda>k st. repeat_greedy (length (rest st)) (rmatch r) k st)"
| "rmatch (LazyStar r) = (\<lambda>k st. repeat_lazy (length (rest st)) (rmatch r) k st)"
| "rmatch (Group n r) =
     (\<lambda>k st. rmatch r
        (\<lambda>st'. k (st'\<lparr>caps := (caps st')(n \<mapsto>
                    take (length (rest st) - length (rest st')) (rest st))\<rparr>)) st)"
| "rmatch (Look r) = (\<lambda>k st. case rmatch r Some st of None \<Rightarrow> None | Some x \<Rightarrow> k st)"
| "rmatch Bol = (\<lambda>k st. if prev st = None then k st else None)"
| "rmatch BolM =
     (\<lambda>k st. case prev st of
                None \<Rightarrow> k st
              | Some c \<Rightarrow> if is_line_terminator c then k st else None)"
| "rmatch Eol = (\<lambda>k st. if rest st = [] then k st else None)"

definition match_at :: "regex \<Rightarrow> char option \<Rightarrow> string \<Rightarrow> mstate option" where
  \<comment> \<open>one attempt, at the position whose previous character and remaining text are given\<close>
  "match_at r p s = rmatch r Some \<lparr>prev = p, rest = s, caps = Map.empty\<rparr>"

fun search_from :: "regex \<Rightarrow> char option \<Rightarrow> string \<Rightarrow> mstate option" where
  "search_from r p [] = match_at r p []"
| "search_from r p (c # cs) =
     (case match_at r p (c # cs) of
        Some st \<Rightarrow> Some st
      | None \<Rightarrow> search_from r (Some c) cs)"

definition exec :: "regex \<Rightarrow> string \<Rightarrow> (nat \<rightharpoonup> string) option" where
  \<comment> \<open>\<open>s.match(r)\<close> without the g flag: the groups of the leftmost match, or \<open>null\<close>\<close>
  "exec r s = map_option caps (search_from r None s)"

definition test :: "regex \<Rightarrow> string \<Rightarrow> bool" where
  "test r s = (exec r s \<noteq> None)"

definition capture :: "nat \<Rightarrow> (nat \<rightharpoonup> string) \<Rightarrow> string" where
  \<comment> \<open>\<open>m[n]\<close>; each group of the expressions below takes part in every match\<close>
  "capture n m = (case m n of None \<Rightarrow> [] | Some s \<Rightarrow> s)"

fun split_lookahead :: "regex \<Rightarrow> char option \<Rightarrow> string \<Rightarrow> string \<Rightarrow> string list" where
  \<comment> \<open>\<open>s.split(r)\<close> for a separator that matches the empty string only: the text is cut
      before every position, other than the start of a piece, where \<open>r\<close> matches;
      the second string is the piece collected so far, reversed\<close>
  "split_lookahead r p piece [] = [rev piece]"
| "split_lookahead r p piece (c # cs) =
     (if piece \<noteq> [] \<and> match_at r p (c # cs) \<noteq> None
      then rev piece # split_lookahead r (Some c) [c] cs
      else split_lookahead r (Some c) (c # piece) cs)"

definition seqs :: "regex list \<Rightarrow> regex" where
  "seqs rs = foldr Seq rs Eps"

definition lit :: "string \<Rightarrow> regex" where
  "lit s = seqs (map (\<lambda>c. Chr (\<lambda>x. x = c)) s)"

definition upper_char :: "char \<Rightarrow> char" where
  \<comment> \<open>\<open>toUpperCase\<close> on one code unit, which is also how the i flag compares characters:
      a-z and the Latin-1 small letters whose capital is one code unit below U+0100; any
      other character is left as it is (the parser applies it to a letter A-D or a-d)\<close>
  "upper_char c =
     (let n = (of_char c :: nat)
      in if (97 \<le> n \<and> n \<le> 122) \<or> (224 \<le> n \<and> n \<le> 254 \<and> n \<noteq> 247)
         then char_of (n - 32) else c)"

definition toUpperCase :: "string \<Rightarrow> string" where
  "toUpperCase s = map upper_char s"

definition lit_i :: "string \<Rightarrow> regex" where
  \<comment> \<open>a literal under the i flag\<close>
  "lit_i s = seqs (map (\<lambda>c. Chr (\<lambda>x. upper_char x = upper_char c)) s)"

definition one_of :: "string \<Rightarrow> regex" where
  "one_of s = Chr (\<lambda>c. c \<in> set s)"

definition none_of :: "string \<Rightarrow> regex" where
  "none_of s = Chr (\<lambda>c. c \<notin> set s)"

definition one_of_i :: "string \<Rightarrow> regex" where
  \<comment> \<open>a class under the i flag\<close>
  "one_of_i s = Chr (\<lambda>c. upper_char c \<in> upper_char ` set s)"

definition re_any :: regex where
  \<comment> \<open>\<open>.\<close> under the s flag\<close>
  "re_any = Chr (\<lambda>c. True)"

definition re_dot :: regex where
  \<comment> \<open>\<open>.\<close> without the s flag\<close>
  "re_dot = Chr (\<lambda>c. \<not> is_line_terminator c)"

definition re_digit :: regex where
  "re_digit = Chr is_digit"

definition re_space :: regex where
  "re_space = Chr is_space"

definition re_plus :: "regex \<Rightarrow> regex" where
  "re_plus r = Seq r (Star r)"

definition re_lazy_plus :: "regex \<Rightarrow> regex" where
  "re_lazy_plus r = Seq r (LazyStar r)"

definition re_opt :: "regex \<Rightarrow> regex" where
  "re_opt r = Alt r Eps"

section \<open>Parsing a quiz from the text of a PDF (services/realPdfParser.ts)\<close>

text \<open>
  The file holds two versions of \<open>RealPDFParser.parseQuizFromPDF\<close>: one that reads the
  questions page by page and attaches a picture of the page to each, and one that reads
  them from the text of the whole document. A page is what PDF.js hands over: the strings
  of its text items, and the picture that rendering it gives, of a type left open.
\<close>

record 'b page =
  items :: "string list"
  rendered :: 'b

record 'b ParsedQuestion =
  question_text :: string
  question_type :: string
  options :: "string list"
  correct_answer :: "string option"
  points :: nat
  order_index :: int
  has_image :: bool
  image_data :: "('b \<times> string) option"

record 'b ParsedQuiz =
  title :: string
  description :: string
  duration :: nat
  questions :: "'b ParsedQuestion list"

datatype error = Error string

fun join :: "string list \<Rightarrow> string" where
  \<comment> \<open>\<open>xs.join(' ')\<close>\<close>
  "join [] = []"
| "join [x] = x"
| "join (x # y # zs) = x @ '' '' @ join (y # zs)"

definition pageText :: "'b page \<Rightarrow> string" where
  "pageText p = join (items p)"

definition digit_value :: "char \<Rightarrow> nat" where
  "digit_value c = of_char c - 48"

definition parseInt :: "string \<Rightarrow> nat" where
  \<comment> \<open>on a string of decimal digits, which is all the parser passes: the exact number.
      The source's \<open>parseInt\<close> gives a double: this number up to \<open>2^53\<close>, a rounded one
      beyond\<close>
  "parseInt s = foldl (\<lambda>n c. 10 * n + digit_value c) 0 s"

fun show_nat :: "nat \<Rightarrow> string" where
  \<comment> \<open>a number inside a template string: its decimal digits, which is what the source
      prints for a whole number below \<open>10^21\<close>\<close>
  "show_nat n =
     (if n < 10 then [char_of (48 + n)]
      else show_nat (n div 10) @ [char_of (48 + n mod 10)])"

declare show_nat.simps [simp del]

definition or_default :: "string option \<Rightarrow> string \<Rightarrow> string" where
  \<comment> \<open>\<open>x || d\<close> for an optional string: \<open>undefined\<close> and the empty string give \<open>d\<close>\<close>
  "or_default x d = (case x of None \<Rightarrow> d | Some s \<Rightarrow> if s = [] then d else s)"

definition assemble :: "'b ParsedQuestion list \<Rightarrow> string \<Rightarrow> string \<Rightarrow> 'b ParsedQuiz" where
  \<comment> \<open>the \<open>return\<close> of both versions: the questions sorted by \<open>order_index\<close> with the
      comparison \<open>a.order_index - b.order_index\<close> (\<open>Array.prototype.sort\<close> is stable)\<close>
  "assemble qs ttl descr =
     \<lparr>title = ttl, description = descr, duration = 90,
      questions = sort_key order_index qs\<rparr>"

definition finish :: "'b ParsedQuestion list \<Rightarrow> string \<Rightarrow> string \<Rightarrow> string \<Rightarrow> error + 'b ParsedQuiz" where
  \<comment> \<open>the end of both versions: no question at all is an error, thrown inside the \<open>try\<close>
      and wrapped by its \<open>catch\<close>\<close>
  "finish qs ttl descr no_questions =
     (if length qs = 0 then Inl (Error (''Failed to parse PDF: '' @ no_questions))
      else Inr (assemble qs ttl descr))"

subsection \<open>The version that reads the text of the whole document\<close>

definition re_block_start :: regex where
  \<comment> \<open>\<open>/(?=^\d+\.\s)/m\<close>\<close>
  "re_block_start = Look (seqs [BolM, re_plus re_digit, lit ''.'', re_space])"

definition re_number :: regex where
  \<comment> \<open>\<open>/^(\d+)\./\<close>\<close>
  "re_number = seqs [Bol, Group 1 (re_plus re_digit), lit ''.'']"

definition re_question_text :: regex where
  \<comment> \<open>\<open>/^\d+\.\s*(.+?)(?=\s*[A-D]\.|$)/s\<close>\<close>
  "re_question_text =
     seqs [Bol, re_plus re_digit, lit ''.'', Star re_space, Group 1 (re_lazy_plus re_any),
           Look (Alt (seqs [Star re_space, one_of ''ABCD'', lit ''.'']) Eol)]"

definition re_option :: "string \<Rightarrow> string \<Rightarrow> regex" where
  \<comment> \<open>\<open>/[A][\.\)]\s*(.+?)(?=\s*[B][\.\)]|Answer|$)/s\<close>, for A, B and C with the next letter\<close>
  "re_option letter next_letter =
     seqs [one_of letter, one_of ''.)'', Star re_space, Group 1 (re_lazy_plus re_any),
           Look (Alt (seqs [Star re_space, one_of next_letter, one_of ''.)''])
                  (Alt (lit ''Answer'') Eol))]"

definition re_option_D :: regex where
  \<comment> \<open>\<open>/[D][\.\)]\s*(.+?)(?=\s*(?:Answer|Correct|\d+\.)|$)/s\<close>\<close>
  "re_option_D =
     seqs [one_of ''D'', one_of ''.)'', Star re_space, Group 1 (re_lazy_plus re_any),
           Look (Alt (seqs [Star re_space,
                            Alt (lit ''Answer'')
                              (Alt (lit ''Correct'') (seqs [re_plus re_digit, lit ''.'']))])
                  Eol)]"

definition re_answer :: regex where
  \<comment> \<open>\<open>/(?:Answer|Correct)\s*:?\s*([A-D])/i\<close>\<close>
  "re_answer =
     seqs [Alt (lit_i ''Answer'') (lit_i ''Correct''), Star re_space, re_opt (lit '':''),
           Star re_space, Group 1 (one_of_i ''ABCD'')]"

definition option_text :: "regex \<Rightarrow> string \<Rightarrow> string" where
  \<comment> \<open>\<open>block.match(r)?.[1]?.trim().replace(/\s+/g, ' ') || ''\<close>\<close>
  "option_text r block =
     (case exec r block of
        None \<Rightarrow> []
      | Some m \<Rightarrow> (case m 1 of None \<Rightarrow> [] | Some s \<Rightarrow> collapse_spaces (trim s)))"

definition block_options :: "string \<Rightarrow> string list" where
  "block_options block =
     [option_text (re_option ''A'' ''B'') block,
      option_text (re_option ''B'' ''C'') block,
      option_text (re_option ''C'' ''D'') block,
      option_text re_option_D block]"

definition answerMatch :: "string \<Rightarrow> (nat \<rightharpoonup> string) option" where
  "answerMatch block = exec re_answer block"

definition answer_of :: "string list \<Rightarrow> (nat \<rightharpoonup> string) option \<Rightarrow> string" where
  \<comment> \<open>\<open>correctAnswer\<close> before the default: the option that the answer letter names\<close>
  "answer_of opts am =
     (case am of
        None \<Rightarrow> []
      | Some m \<Rightarrow>
          (case toUpperCase (capture 1 m) of
             [] \<Rightarrow> []
           | c # cs \<Rightarrow>
               (let answerIndex = int (of_char c) - int (of_char CHR ''A'')
                in if answerIndex \<ge> 0 \<and> answerIndex < int (length opts)
                   then opts ! nat answerIndex else [])))"

definition block_question_text :: "string \<Rightarrow> string option" where
  \<comment> \<open>\<open>questionTextMatch[1].trim().replace(/\s+/g, ' ')\<close>, or \<open>None\<close> without a match\<close>
  "block_question_text block =
     (case exec re_question_text block of
        None \<Rightarrow> None
      | Some questionTextMatch \<Rightarrow> Some (collapse_spaces (trim (capture 1 questionTextMatch))))"

definition extract_block :: "string \<Rightarrow> 'b ParsedQuestion option" where
  \<comment> \<open>the body of the loop over the blocks; \<open>None\<close> is \<open>continue\<close>\<close>
  "extract_block block =
     (if trim block = [] then None
      else case exec re_number block of
        None \<Rightarrow> None
      | Some numMatch \<Rightarrow>
         (case block_question_text block of
            None \<Rightarrow> None
          | Some questionText \<Rightarrow>
             (let questionNum = capture 1 numMatch;
                  opts = block_options block
              in if questionText = [] \<or> list_ex (\<lambda>opt. opt = []) opts then None
                 else (let correctAnswer = answer_of opts (answerMatch block)
                       in Some \<lparr>question_text = questionText,
                                question_type = ''multiple-choice'',
                                options = opts,
                                correct_answer =
                                  Some (if correctAnswer = [] then opts ! 0 else correctAnswer),
                                points = 1,
                                order_index = int (parseInt questionNum) - 1,
                                has_image = False,
                                image_data = None\<rparr>))))"

definition questionBlocks :: "string \<Rightarrow> string list" where
  "questionBlocks allText = split_lookahead re_block_start None [] allText"

definition extract_questions :: "string \<Rightarrow> 'b ParsedQuestion list" where
  "extract_questions allText = List.map_filter extract_block (questionBlocks allText)"

definition no_questions_text :: string where
  \<open>no_questions_text = ''No questions detected in the PDF. Ensure the PDF contains questions in format: "1. Question text A. option B. option C. option D. option"''\<close>

definition parseQuizFromPDF_text ::
  "'b page list \<Rightarrow> string option \<Rightarrow> string option \<Rightarrow> error + 'b ParsedQuiz" where
  "parseQuizFromPDF_text pages quizTitle quizDescription =
     (let allText = concat (map (\<lambda>p. pageText p @ [CHR 0x0A]) pages)
      in finish (extract_questions allText)
           (or_default quizTitle ''Imported Quiz'')
           (or_default quizDescription ''Quiz imported from PDF'')
           no_questions_text)"

subsection \<open>The version that reads page by page and attaches the page's picture\<close>

definition re_question_line :: regex where
  \<comment> \<open>\<open>/^\s*(\d+)\.\s*(.*)$/\<close>\<close>
  "re_question_line =
     seqs [Bol, Star re_space, Group 1 (re_plus re_digit), lit ''.'', Star re_space,
           Group 2 (Star re_dot), Eol]"

definition re_option_line :: regex where
  \<comment> \<open>\<open>/^[A-D]\.\s/\<close>\<close>
  "re_option_line = seqs [Bol, one_of ''ABCD'', lit ''.'', re_space]"

definition re_number_line :: regex where
  \<comment> \<open>\<open>/^\s*\d+\.\s/\<close>\<close>
  "re_number_line = seqs [Bol, Star re_space, re_plus re_digit, lit ''.'', re_space]"

definition re_page_option :: "string \<Rightarrow> regex" where
  \<comment> \<open>the expression built for a letter: \<open>/A\.\s*([^A-D]*?)(?=[A-D]\.|$)/s\<close> for A, B
      and C, \<open>/D\.\s*([^A-D]*?)(?=$)/s\<close> for D\<close>
  "re_page_option letter =
     seqs [lit letter, lit ''.'', Star re_space, Group 1 (LazyStar (none_of ''ABCD'')),
           Look (if letter = ''D'' then Eol else Alt (seqs [one_of ''ABCD'', lit ''.'']) Eol)]"

definition re_leading_number :: regex where
  \<comment> \<open>\<open>/^\d+\./\<close>\<close>
  "re_leading_number = seqs [Bol, re_plus re_digit, lit ''.'']"

definition page_lines :: "string \<Rightarrow> string list" where
  \<comment> \<open>\<open>pageText.split('\n').map(line => line.trim()).filter(line => line.length > 0)\<close>\<close>
  "page_lines text = filter (\<lambda>line. length line > 0) (map trim (split_on CHR 0x0A text))"

fun find_question :: "string list \<Rightarrow> ((nat \<times> string) \<times> string list) option" where
  \<comment> \<open>the first loop: the number and text of the first line that begins with a question
      number, and the lines after it\<close>
  "find_question [] = None"
| "find_question (line # ls) =
     (case exec re_question_line line of
        Some questionMatch \<Rightarrow>
          Some ((parseInt (capture 1 questionMatch), trim (capture 2 questionMatch)), ls)
      | None \<Rightarrow> find_question ls)"

fun collect_text :: "string \<Rightarrow> string list \<Rightarrow> string" where
  \<comment> \<open>the second loop: the following lines are added up to an option or a question number\<close>
  "collect_text questionText [] = questionText"
| "collect_text questionText (line # ls) =
     (if test re_option_line line \<or> test re_number_line line then questionText
      else collect_text (questionText @ '' '' @ line) ls)"

definition page_option :: "string \<Rightarrow> string \<Rightarrow> string option" where
  \<comment> \<open>the body of the loop over the letters; \<open>Some\<close> is what it pushes\<close>
  "page_option text letter =
     (case exec (re_page_option letter) text of
        None \<Rightarrow> None
      | Some optionMatch \<Rightarrow>
          (let cleanOption = collapse_spaces (trim (capture 1 optionMatch))
           in if cleanOption \<noteq> [] \<and> \<not> test re_leading_number cleanOption
              then Some cleanOption else None))"

definition page_options :: "string \<Rightarrow> string list" where
  "page_options text = List.map_filter (page_option text) [''A'', ''B'', ''C'', ''D'']"

definition parse_page :: "'b page \<Rightarrow> 'b ParsedQuestion option" where
  \<comment> \<open>the body of the loop over the pages; \<open>None\<close> is \<open>continue\<close>\<close>
  "parse_page p =
     (case find_question (page_lines (pageText p)) of
        None \<Rightarrow> None
      | Some ((questionNum, firstText), ls) \<Rightarrow>
          if questionNum = 0 then None
          else (let questionText = trim (collect_text firstText ls)
                in if questionText = [] then None
                   else (let opts = page_options (pageText p)
                         in Some \<lparr>question_text = questionText,
                                  question_type = ''multiple-choice'',
                                  options = (if length opts = 4 then opts
                                             else [''A'', ''B'', ''C'', ''D'']),
                                  correct_answer = Some [],
                                  points = 2,
                                  order_index = int questionNum - 1,
                                  has_image = True,
                                  image_data =
                                    Some (rendered p,
                                          ''question_'' @ show_nat questionNum @ ''.png'')\<rparr>)))"

definition parseQuizFromPDF_image ::
  "'b page list \<Rightarrow> string option \<Rightarrow> string option \<Rightarrow> error + 'b ParsedQuiz" where
  \<comment> \<open>the loop begins at the second page\<close>
  "parseQuizFromPDF_image pages quizTitle quizDescription =
     finish (List.map_filter parse_page (drop 1 pages))
       (or_default quizTitle ''Dummy-2 (Dallas ISD)'')
       (or_default quizDescription ''Imported geometry assessment from Dallas ISD'')
       ''No questions detected in the PDF. Ensure it has selectable text and clearly labeled options (A., B., C., D.).''"

section \<open>Sample inputs\<close>

definition scenario_text :: string where
  "scenario_text = ''1. What is 2+2? A. 3 B. 4 C. 5 D. 6 Answer: B 2. Capital of France? A. Berlin B. Paris C. Rome D. Madrid Answer: B''"

definition scenario_lines :: string where
  \<comment> \<open>the same text with the second question on a line of its own\<close>
  "scenario_lines = ''1. What is 2+2? A. 3 B. 4 C. 5 D. 6 Answer: B'' @ [CHR 0x0A]
     @ ''2. Capital of France? A. Berlin B. Paris C. Rome D. Madrid Answer: B''"

definition scenario_first :: "unit ParsedQuestion" where
  "scenario_first =
     \<lparr>question_text = ''What is 2+2?'', question_type = ''multiple-choice'',
      options = [''3'', ''4'', ''5'', ''6''], correct_answer = Some ''4'',
      points = 1, order_index = 0, has_image = False, image_data = None\<rparr>"

definition scenario_second :: "unit ParsedQuestion" where
  "scenario_second =
     \<lparr>question_text = ''Capital of France?'', question_type = ''multiple-choice'',
      options = [''Berlin'', ''Paris'', ''Rome'', ''Madrid''], correct_answer = Some ''Paris'',
      points = 1, order_index = 1, has_image = False, image_data = None\<rparr>"

definition three_options_text :: string where
  \<comment> \<open>two numbered lines, the first with three options only\<close>
  "three_options_text =
     ''1. Q1 A. a B. b C. c'' @ [CHR 0x0A] @ ''2. Q2 A. a B. b C. c D. d'' @ [CHR 0x0A]"


definition sample_question :: "int \<Rightarrow> unit ParsedQuestion" where
  "sample_question i =
     \<lparr>question_text = ''Q'', question_type = ''multiple-choice'',
      options = [''a'', ''b'', ''c'', ''d''], correct_answer = Some ''a'',
      points = 1, order_index = i, has_image = False, image_data = None\<rparr>"

definition sample_pages :: "nat page list" where
  \<comment> \<open>a cover, a page with four options and a page with three; the pictures are numbers\<close>
  "sample_pages =
     [\<lparr>items = [''Cover''], rendered = 0\<rparr>,
      \<lparr>items = [''1. Which shape?'', ''A. circle'', ''B. square'', ''C. cube'', ''D. cone''],
        rendered = 1\<rparr>,
      \<lparr>items = [''2. Which solid?'', ''A. circle'', ''B. square'', ''C. cube''],
        rendered = 2\<rparr>]"

definition sample_quiz :: "nat ParsedQuiz" where
  \<comment> \<open>what the page-by-page version makes of \<open>sample_pages\<close>\<close>
  "sample_quiz =
     \<lparr>title = ''Dummy-2 (Dallas ISD)'',
      description = ''Imported geometry assessment from Dallas ISD'',
      duration = 90,
      questions =
        [\<lparr>question_text = ''Which shape? A. circle B. square C. cube D. cone'',
          question_type = ''multiple-choice'',
          options = [''circle'', ''square'', ''cube'', ''cone''],
          correct_answer = Some [], points = 2, order_index = 0, has_image = True,
          image_data = Some (1, ''question_1.png'')\<rparr>,
         \<lparr>question_text = ''Which solid? A. circle B. square C. cube'',
          question_type = ''multiple-choice'',
          options = [''A'', ''B'', ''C'', ''D''],
          correct_answer = Some [], points = 2, order_index = 1, has_image = True,
          image_data = Some (2, ''question_2.png'')\<rparr>]\<rparr>"

section \<open>Properties of the grading service\<close>

lemma str_includes_Nil: "str_includes s [] = True"
  by (cases s) simp_all

lemma containsKeyword_blank_answer:
  assumes "normalizeText r = []"
  shows "containsKeyword r k = True"
  using assms by (simp add: containsKeyword_def Let_def str_includes_Nil list_all_iff)

lemma safe_of_int: "\<bar>z\<bar> \<le> 2 ^ 53 \<Longrightarrow> safe (of_int z)"
proof -
  assume "\<bar>z\<bar> \<le> 2 ^ 53"
  then have "\<bar>(of_int z :: real)\<bar> \<le> of_int (2 ^ 53)"
    by (metis of_int_abs of_int_le_iff)
  then show ?thesis by (simp add: safe_def)
qed



lemma exact_of_int: "\<bar>z\<bar> \<le> 2 ^ 53 \<Longrightarrow> exact (of_int z) = Some (of_int z)"
  by (simp add: exact_def safe_of_int)



subsection \<open>The keyword matcher on an empty keyword\<close>

text \<open>
  C1 (as the code has it). \<open>containsKeyword\<close> has no guard for an empty keyword: whenever
  the keyword normalizes to the empty string, the phrase test
  \<open>normalizedAnswer.includes(normalizedKeyword)\<close> succeeds, and the matcher returns true
  for every response.
\<close>

theorem containsKeyword_blank_keyword:
  "normalizeText k = [] \<Longrightarrow> containsKeyword r k = True"
  by (simp add: containsKeyword_def Let_def str_includes_Nil)

theorem containsKeyword_blank_keyword_witness:
  "normalizeText ''?!'' = [] \<and> containsKeyword ''hello'' ''?!'' = True"
proof -
  have h: "normalizeText ''?!'' = []" by code_simp
  show ?thesis by (rule conjI[OF h containsKeyword_blank_keyword[OF h]])
qed

text \<open>
  The claim as the specification states it, \<open>matches(r, "") = false\<close>, fails at the
  response \<open>hello\<close>.
\<close>

theorem containsKeyword_empty_keyword_counterexample:
  "containsKeyword ''hello'' [] \<noteq> False"
  by code_simp

subsection \<open>A response that normalizes to nothing\<close>

text \<open>
  C3 (where the code departs from it). A response that is not the empty string but
  normalizes to it passes the guard of \<open>gradeShortAnswer\<close>, and every keyword is reported
  found. Full credit follows where the weights are numbers; but for the keyword
  \<open>constructor\<close> without a weight of its own, \<open>keywordWeightage[keyword] || 1\<close> is the
  inherited function and not 1, both sums become strings, and the code returns score 0
  and percentage 0 in place of the full credit.
\<close>

theorem gradeShortAnswer_inherited_keyword:
  assumes "r \<noteq> []" and "normalizeText r = []" and "kwt ''constructor'' = None"
  shows "gradeShortAnswer r [''constructor''] kwt P =
     Some \<lparr>score = 0, maxScore = P, percentage = 0,
           matchedKeywords =
             [\<lparr>keyword = ''constructor'', found = True, weight = Inherited\<rparr>]\<rparr>"
proof -
  have w: "weight_of kwt ''constructor'' = Inherited"
    using assms(3) by (simp add: weight_of_def object_prototype_keys_def)
  have f: "containsKeyword r ''constructor''"
    by (simp add: containsKeyword_blank_answer[OF assms(2)])
  have z: "exact (0::real) = Some 0"
    using exact_of_int[of 0] by simp
  show ?thesis
    using assms(1)
    by (simp add: gradeShortAnswer_def Let_def w f scaled_def round2_def z js_round_def)
qed

theorem gradeShortAnswer_inherited_keyword_witness:
  "gradeShortAnswer '' ?!'' [''constructor''] Map.empty 6 =
     Some \<lparr>score = 0, maxScore = 6, percentage = 0,
           matchedKeywords =
             [\<lparr>keyword = ''constructor'', found = True, weight = Inherited\<rparr>]\<rparr>"
proof -
  have a: "'' ?!'' \<noteq> []" by simp
  have b: "normalizeText '' ?!'' = []" by code_simp
  have c: "(Map.empty :: string \<rightharpoonup> real) ''constructor'' = None" by simp
  show ?thesis by (rule gradeShortAnswer_inherited_keyword[OF a b c])
qed

subsection \<open>The manual-review band\<close>

text \<open>
  C4. \<open>requiresManualReview\<close> holds exactly when the percentage lies between 40 and 60,
  both ends included: it holds at 40 and at 60, and fails at 39.99 and at 60.01.
\<close>

theorem requiresManualReview_band:
  "requiresManualReview g t = (40 \<le> percentage g \<and> percentage g \<le> 60)
   \<and> requiresManualReview (g\<lparr>percentage := 40\<rparr>) t
   \<and> requiresManualReview (g\<lparr>percentage := 60\<rparr>) t
   \<and> \<not> requiresManualReview (g\<lparr>percentage := 39.99\<rparr>) t
   \<and> \<not> requiresManualReview (g\<lparr>percentage := 60.01\<rparr>) t"
  by (simp add: requiresManualReview_def)

theorem requiresManualReview_band_witness:
  "requiresManualReview \<lparr>score = 3, maxScore = 6, percentage = 50, matchedKeywords = []\<rparr> 50"
  using requiresManualReview_band
    [of "\<lparr>score = 3, maxScore = 6, percentage = 50, matchedKeywords = []\<rparr>" 50]
  by simp

subsection \<open>The zero case\<close>

text \<open>
  C5. When the response is the empty string or the keyword list is empty,
  \<open>gradeShortAnswer\<close> returns the zero result: score 0, percentage 0,
  \<open>maxScore = totalPoints\<close> and no matches. The function has no failing branch.
\<close>

theorem gradeShortAnswer_zero_case:
  "r = [] \<or> ks = [] \<Longrightarrow>
   gradeShortAnswer r ks kwt P =
     Some \<lparr>score = 0, maxScore = P, percentage = 0, matchedKeywords = []\<rparr>"
  by (auto simp: gradeShortAnswer_def)

theorem gradeShortAnswer_zero_case_witness:
  "gradeShortAnswer [] [''photosynthesis''] Map.empty 10 =
     Some \<lparr>score = 0, maxScore = 10, percentage = 0, matchedKeywords = []\<rparr>
   \<and> gradeShortAnswer ''Plants grow.'' [] Map.empty 10 =
     Some \<lparr>score = 0, maxScore = 10, percentage = 0, matchedKeywords = []\<rparr>"
  using gradeShortAnswer_zero_case [of "[]" "[''photosynthesis'']" Map.empty 10]
    gradeShortAnswer_zero_case [of "''Plants grow.''" "[]" Map.empty 10]
  by simp

subsection \<open>Full credit\<close>




section \<open>Properties of the parser\<close>

lemma length_map_filter:
  "length (List.map_filter f xs) = length (filter (\<lambda>x. f x \<noteq> None) xs)"
  by (simp add: List.map_filter_def)

lemma set_map_filter: "set (List.map_filter f xs) = {y. \<exists>x\<in>set xs. f x = Some y}"
  by (force simp: List.map_filter_def image_iff)

lemma extract_block_None_iff:
  "((extract_block block :: 'b ParsedQuestion option) = None) =
     (trim block = [] \<or> exec re_number block = None \<or> block_question_text block = None
      \<or> block_question_text block = Some [] \<or> list_ex (\<lambda>opt. opt = []) (block_options block))"
  by (auto simp: extract_block_def Let_def split: option.splits)

lemma parse_page_Some_iff:
  "(parse_page p \<noteq> None) =
     (case find_question (page_lines (pageText p)) of
        None \<Rightarrow> False
      | Some ((n, firstText), ls) \<Rightarrow> n \<noteq> 0 \<and> trim (collect_text firstText ls) \<noteq> [])"
  by (auto simp: parse_page_def Let_def split: option.splits prod.splits)

lemma parse_page_record:
  assumes "parse_page p = Some q"
  shows "correct_answer q = Some [] \<and> has_image q
    \<and> (\<exists>name. image_data q = Some (rendered p, name))
    \<and> options q = (if length (page_options (pageText p)) = 4 then page_options (pageText p)
                   else [''A'', ''B'', ''C'', ''D''])"
  using assms
  by (auto simp: parse_page_def Let_def split: if_splits option.splits prod.splits)

lemma finish_questions: "finish qs t d e = Inr doc \<Longrightarrow> set (questions doc) = set qs"
  by (auto simp: finish_def assemble_def split: if_splits)

lemma distinct_keys_sort:
  "distinct (map f xs) \<Longrightarrow> distinct (map f (sort_key f xs))"
  by (simp add: distinct_map)

lemma sorted_upt_int: "sorted (map int [0..<n])"
  by (simp add: sorted_map sorted_wrt_iff_nth_less)

lemma distinct_upt_int: "distinct (map int [0..<n])"
  by (simp add: distinct_map inj_on_def)

lemma set_upt_int: "set (map int [0..<n]) = {0..<int n}"
proof -
  have "int ` {0..<n} = {0..<int n}"
    by (auto simp: image_iff) (metis nat_less_iff nat_0_le atLeastLessThan_iff zero_le)
  then show ?thesis by simp
qed

subsection \<open>A detected question whose options do not parse\<close>

text \<open>
  C2 (as the code has it). The version that reads the whole text emits a record for a
  block exactly when the block is not blank, begins with a question number, and its
  question text and all four options are non-empty; any other block is skipped (with a
  warning on the console), so the number of records is the number of blocks that pass.
  The page-by-page version emits a record for a page exactly when it finds a question
  line with a number other than 0 and a non-empty text, whatever the options are; the
  record has \<open>has_image = true\<close> with the picture of the page, and the labels A to D for
  options when the options found are not four.
\<close>

theorem detected_block_kept_or_skipped:
  "((extract_block block :: 'b ParsedQuestion option) = None) =
     (trim block = [] \<or> exec re_number block = None \<or> block_question_text block = None
      \<or> block_question_text block = Some [] \<or> list_ex (\<lambda>opt. opt = []) (block_options block))
   \<and> length (extract_questions allText :: 'b ParsedQuestion list) =
       length (filter (\<lambda>b. (extract_block b :: 'b ParsedQuestion option) \<noteq> None)
                 (questionBlocks allText))
   \<and> (parse_page p \<noteq> None) =
       (case find_question (page_lines (pageText p)) of
          None \<Rightarrow> False
        | Some ((n, firstText), ls) \<Rightarrow> n \<noteq> 0 \<and> trim (collect_text firstText ls) \<noteq> [])
   \<and> (\<forall>q. parse_page p = Some q \<longrightarrow>
         has_image q \<and> image_data q \<noteq> None
         \<and> options q = (if length (page_options (pageText p)) = 4
                        then page_options (pageText p) else [''A'', ''B'', ''C'', ''D'']))"
proof -
  have "\<forall>q. parse_page p = Some q \<longrightarrow>
         has_image q \<and> image_data q \<noteq> None
         \<and> options q = (if length (page_options (pageText p)) = 4
                        then page_options (pageText p) else [''A'', ''B'', ''C'', ''D''])"
    using parse_page_record[of p] by auto
  then show ?thesis
    using extract_block_None_iff[of block] parse_page_Some_iff[of p]
    by (simp only: extract_questions_def length_map_filter)
qed

theorem detected_block_kept_or_skipped_witness:
  "(extract_block ''1. Q1 A. a B. b C. c'' :: nat ParsedQuestion option) = None
   \<and> parse_page (sample_pages ! 2) \<noteq> None"
proof -
  have a: "list_ex (\<lambda>opt. opt = []) (block_options ''1. Q1 A. a B. b C. c'')"
    by code_simp
  have b: "(case find_question (page_lines (pageText (sample_pages ! 2))) of
          None \<Rightarrow> False
        | Some ((n, firstText), ls) \<Rightarrow> n \<noteq> 0 \<and> trim (collect_text firstText ls) \<noteq> [])"
    by code_simp
  note t = detected_block_kept_or_skipped
    [where block = "''1. Q1 A. a B. b C. c''" and allText = "[]" and p = "sample_pages ! 2"]
  have c: "(extract_block ''1. Q1 A. a B. b C. c'' :: nat ParsedQuestion option) = None"
    using conjunct1[OF t] a by blast
  have d: "parse_page (sample_pages ! 2) \<noteq> None"
    using conjunct1[OF conjunct2[OF conjunct2[OF t]]] b by blast
  show ?thesis by (rule conjI[OF c d])
qed

text \<open>
  The claim as the specification states it fails in the version that reads the whole
  text: of two blocks that begin with a question number, the one with three options is
  skipped and one record is left.
\<close>

theorem detected_block_dropped_counterexample:
  "map (test re_number) (questionBlocks three_options_text) = [True, True]
   \<and> length (extract_questions three_options_text :: unit ParsedQuestion list) = 1"
  by code_simp

subsection \<open>The scenario of the segmenter\<close>

text \<open>
  C6 (as the code has it). The blocks begin where a line begins with a question number.
  In the text of the scenario the second question follows the first on the same line, so
  the text is one block and gives one record: index 0, the options 3, 4, 5, 6 and the
  answer 4. With the second question on a line of its own the text gives the two records
  of the scenario, with indices 0 and 1 and the answers 4 and Paris.
\<close>

theorem scenario_records:
  "extract_questions scenario_text = [scenario_first]
   \<and> extract_questions scenario_lines = [scenario_first, scenario_second]"
  by code_simp

theorem scenario_records_witness:
  "map order_index (extract_questions scenario_text :: unit ParsedQuestion list) = [0]
   \<and> map correct_answer (extract_questions scenario_lines :: unit ParsedQuestion list)
       = [Some ''4'', Some ''Paris'']"
  by (simp add: scenario_records scenario_first_def scenario_second_def)

theorem scenario_one_record_counterexample:
  "length (extract_questions scenario_text :: unit ParsedQuestion list) \<noteq> 2"
  by code_simp

subsection \<open>The default answer\<close>



subsection \<open>The records of the page-by-page version\<close>

text \<open>
  C9 (as the code has it). Every record of the page-by-page version has the empty string
  for its correct answer (not \<open>null\<close>), \<open>has_image = true\<close> and the picture of its page
  attached; its options are the four texts found on the page when exactly four are found,
  and the labels A, B, C, D otherwise.
\<close>

theorem image_version_records:
  assumes "parseQuizFromPDF_image pages quizTitle quizDescription = Inr doc"
    and "q \<in> set (questions doc)"
  shows "correct_answer q = Some [] \<and> has_image q
    \<and> (\<exists>p\<in>set (drop 1 pages).
          (\<exists>name. image_data q = Some (rendered p, name))
          \<and> options q = (if length (page_options (pageText p)) = 4
                         then page_options (pageText p) else [''A'', ''B'', ''C'', ''D'']))"
proof -
  have "q \<in> set (List.map_filter parse_page (drop 1 pages))"
    using assms finish_questions by (fastforce simp: parseQuizFromPDF_image_def)
  then obtain p where p: "p \<in> set (drop 1 pages)" "parse_page p = Some q"
    by (auto simp: set_map_filter)
  from parse_page_record[OF p(2)] p(1) show ?thesis by blast
qed

theorem image_version_records_witness:
  "parseQuizFromPDF_image sample_pages None None = Inr sample_quiz
   \<and> correct_answer (questions sample_quiz ! 0) = Some []
   \<and> has_image (questions sample_quiz ! 0)"
proof -
  have a: "parseQuizFromPDF_image sample_pages None None = Inr sample_quiz" by code_simp
  have b: "questions sample_quiz ! 0 \<in> set (questions sample_quiz)"
    by (simp add: sample_quiz_def)
  note t = image_version_records[OF a b]
  show ?thesis
    by (rule conjI[OF a conjI[OF conjunct1[OF t] conjunct1[OF conjunct2[OF t]]]])
qed

text \<open>
  The claim as the specification states it fails on the second of the sample pages: the
  correct answer of its record is the empty string and not \<open>null\<close>, and its options are
  the four texts of the page and not the labels.
\<close>

theorem image_version_records_counterexample:
  "map_option correct_answer (parse_page (sample_pages ! 1)) \<noteq> Some None
   \<and> map_option options (parse_page (sample_pages ! 1)) \<noteq> Some [''A'', ''B'', ''C'', ''D'']
   \<and> map_option options (parse_page (sample_pages ! 1))
       = Some [''circle'', ''square'', ''cube'', ''cone'']"
  by code_simp

subsection \<open>The order of the questions\<close>

text \<open>
  C10. For questions whose indices are the distinct numbers 0 to N - 1 in any order, the
  questions of the assembled quiz are sorted by index, are N in number, are a permutation
  of the questions given, and carry the indices 0 to N - 1 in this order. The assembly is
  the \<open>return\<close> of \<open>parseQuizFromPDF\<close>, which is reached whenever there is a question.
\<close>

theorem assemble_sorted_permutation:
  assumes "distinct (map order_index qs)"
    and "set (map order_index qs) = {0..<int (length qs)}"
  shows "sorted (map order_index (questions (assemble qs ttl descr)))
    \<and> length (questions (assemble qs ttl descr)) = length qs
    \<and> mset (questions (assemble qs ttl descr)) = mset qs
    \<and> map order_index (questions (assemble qs ttl descr)) = map int [0..<length qs]
    \<and> (qs \<noteq> [] \<longrightarrow> finish qs ttl descr msg = Inr (assemble qs ttl descr))"
proof -
  let ?r = "map order_index (sort_key order_index qs)"
  have s: "sorted ?r" by (rule sorted_sort_key)
  have d: "distinct ?r" by (rule distinct_keys_sort[OF assms(1)])
  have e: "set ?r = set (map int [0..<length qs])"
  proof -
    have "set ?r = set (map order_index qs)" by simp
    also have "\<dots> = {0..<int (length qs)}" by (rule assms(2))
    also have "\<dots> = set (map int [0..<length qs])" by (rule set_upt_int[symmetric])
    finally show ?thesis .
  qed
  have "?r = map int [0..<length qs]"
    by (rule sorted_distinct_set_unique[OF s d sorted_upt_int distinct_upt_int e])
  with s show ?thesis by (simp add: assemble_def finish_def)
qed

theorem assemble_sorted_permutation_witness:
  "map order_index (questions (assemble
       [sample_question 2, sample_question 0, sample_question 1] ''Quiz'' ''Three questions''))
     = map int [0..<length [sample_question 2, sample_question 0, sample_question 1]]
   \<and> finish [sample_question 2, sample_question 0, sample_question 1]
         ''Quiz'' ''Three questions'' no_questions_text
       = Inr (assemble [sample_question 2, sample_question 0, sample_question 1]
                ''Quiz'' ''Three questions'')"
proof -
  have a: "distinct (map order_index [sample_question 2, sample_question 0, sample_question 1])"
    by (simp add: sample_question_def)
  have b: "set (map order_index [sample_question 2, sample_question 0, sample_question 1])
             = {0..<int (length [sample_question 2, sample_question 0, sample_question 1])}"
    by (auto simp: sample_question_def)
  have c: "[sample_question 2, sample_question 0, sample_question 1] \<noteq> []"
    by simp
  note t = assemble_sorted_permutation
    [OF a b, where ttl = "''Quiz''" and descr = "''Three questions''"
       and msg = no_questions_text]
  have d: "map order_index (questions (assemble
       [sample_question 2, sample_question 0, sample_question 1] ''Quiz'' ''Three questions''))
     = map int [0..<length [sample_question 2, sample_question 0, sample_question 1]]"
    using t by blast
  have e: "finish [sample_question 2, sample_question 0, sample_question 1]
         ''Quiz'' ''Three questions'' no_questions_text
       = Inr (assemble [sample_question 2, sample_question 0, sample_question 1]
                ''Quiz'' ''Three questions'')"
    using t c by blast
  show ?thesis by (rule conjI[OF d e])
qed

end
